theory Spec2Isabelle
  imports Complex_Main "HOL-Library.Char_ord" "HOL-Library.List_Lexorder" "HOL-Library.Log_Nat"
    "HOL-Library.Multiset"
begin

section \<open>Values, errors and tables\<close>

text \<open>
  The pipeline of \<^verbatim>\<open>bot.py\<close> is \<^verbatim>\<open>process_pdf\<close> and \<^verbatim>\<open>generate_chart\<close>.
  Opening the PDF and finding the tables on a page is pdfplumber's work; the model starts
  from what \<^verbatim>\<open>page.extract_tables()\<close> returns for every page: a list of tables, a table a
  list of rows, a row a list of cells, a cell a Python \<^verbatim>\<open>str\<close> or \<^verbatim>\<open>None\<close>.
  Strings are byte lists (UTF-8), so the bytewise lexicographic order on them is Python's
  order on \<^verbatim>\<open>str\<close>.

  The pandas operations the function calls are written out for the frames this function
  builds: object columns of strings and nulls. A null (\<^verbatim>\<open>None\<close> or \<^verbatim>\<open>NaN\<close>) is \<open>None\<close>.
\<close>

datatype error =
    IndexError
  | KeyError
  | TypeError
  | ZeroDivisionError
  | InvalidIndexError
  | ValueError string
  | OSError

type_synonym cell = "string option"

type_synonym raw_table = "cell list list"

text \<open>A cell of the status column after \<^verbatim>\<open>replace\<close>: null, a string or a Python int.\<close>

datatype obj = ONone | OStr string | OInt int

record dataframe =
  columns :: "cell list"
  rows :: "cell list list"

text \<open>
  A number of the status column, and a sum of such numbers, is a Python int or a Python
  float.
\<close>

datatype pytype = PyInt | PyFloat

text \<open>
  One row of \<^verbatim>\<open>grouped_df\<close>: the index (the course) and the three columns, the sum with its
  Python type. The percentage is a Python float.
\<close>

record course_stats =
  course :: string
  sum_present :: int
  sum_type :: pytype
  count_lecture :: int
  percentage :: rat

section \<open>Python ints and floats\<close>

text \<open>
  \<^verbatim>\<open>str\<close> of a Python int (in an f-string, in a message): its decimal digits.
\<close>

definition digit :: "nat \<Rightarrow> char" where
  "digit d = ''0123456789'' ! d"

fun str_nat :: "nat \<Rightarrow> string" where
  "str_nat n = (if n < 10 then [digit n] else str_nat (n div 10) @ [digit (n mod 10)])"

declare str_nat.simps [simp del]

definition str_int :: "int \<Rightarrow> string" where
  "str_int i = (if i < 0 then ''-'' @ str_nat (nat (- i)) else str_nat (nat i))"

text \<open>
  A Python float is a binary64 number: a significand of 53 bits and a power of two. The
  model writes a float as the rational number it is. Python's \<^verbatim>\<open>/\<close> and \<^verbatim>\<open>*\<close> return the
  float nearest to the exact result, a tie going to the even significand; \<open>float64 x\<close> is
  that float. With \<open>2 ^ e \<le> \<bar>x\<bar> < 2 ^ (e + 1)\<close> the floats around \<open>x\<close> are the multiples of
  \<open>2 ^ (e - 52)\<close>. The limits of the exponent (overflow beyond \<open>2 ^ 1024\<close>, fewer bits below
  \<open>2 ^ - 1022\<close>) are not modelled: the numbers divided here are counts of rows.
\<close>

definition round_half_even :: "rat \<Rightarrow> int" where
  "round_half_even x =
     (let f = \<lfloor>x\<rfloor>; d = x - of_int f in
      if d < 1 / 2 then f
      else if 1 / 2 < d then f + 1
      else if even f then f else f + 1)"

definition exponent :: "rat \<Rightarrow> int" where
  "exponent x =
     (if 1 \<le> \<bar>x\<bar> then bitlen \<lfloor>\<bar>x\<bar>\<rfloor> - 1
      else - bitlen (\<lceil>1 / \<bar>x\<bar>\<rceil> - 1))"

definition float64 :: "rat \<Rightarrow> rat" where
  "float64 x =
     (if x = 0 then 0
      else let ulp = 2 powi (exponent x - 52)
           in of_int (round_half_even (x / ulp)) * ulp)"

section \<open>Reading the tables (lines 65 to 81)\<close>

text \<open>
  \<^verbatim>\<open>pd.DataFrame(table)\<close> of a list of lists is as wide as the longest row and fills the
  shorter rows with \<^verbatim>\<open>None\<close>.
\<close>

definition pad_row :: "nat \<Rightarrow> cell list \<Rightarrow> cell list" where
  "pad_row w r = r @ replicate (w - length r) None"

definition DataFrame :: "raw_table \<Rightarrow> cell list list" where
  "DataFrame table = map (pad_row (foldr max (map length table) 0)) table"

text \<open>
  \<^verbatim>\<open>df.columns = df.iloc[0]; df = df[1:].reset_index(drop=True)\<close>: the first row becomes the
  labels; \<^verbatim>\<open>iloc[0]\<close> of a frame without rows raises IndexError.
\<close>

definition table_frame :: "raw_table \<Rightarrow> error + dataframe" where
  "table_frame table =
     (case DataFrame table of
        [] \<Rightarrow> Inl IndexError
      | h # rs \<Rightarrow> Inr \<lparr>columns = h, rows = rs\<rparr>)"

text \<open>
  \<^verbatim>\<open>df.columns != headers[0]\<close>: elementwise on an object index; a null on either side
  compares unequal.
\<close>

definition label_ne :: "cell \<Rightarrow> cell \<Rightarrow> bool" where
  "label_ne c h = (c = None \<or> h = None \<or> c \<noteq> h)"

text \<open>
  \<^verbatim>\<open>df[labels]\<close>: for every label asked for, every column that carries it, in column order
  (a label that two columns carry selects both, each time it is asked for).
\<close>

definition positions :: "cell list \<Rightarrow> cell \<Rightarrow> nat list" where
  "positions cs l = filter (\<lambda>j. cs ! j = l) [0..<length cs]"

definition take_cols :: "nat list \<Rightarrow> dataframe \<Rightarrow> dataframe" where
  "take_cols idx df =
     \<lparr>columns = map (\<lambda>j. columns df ! j) idx,
      rows = map (\<lambda>r. map (\<lambda>j. r ! j) idx) (rows df)\<rparr>"

definition getitem_labels :: "cell list \<Rightarrow> dataframe \<Rightarrow> dataframe" where
  "getitem_labels ls df = take_cols (concat (map (positions (columns df)) ls)) df"

text \<open>Line 79; \<^verbatim>\<open>headers[0]\<close> of an empty index raises IndexError.\<close>

definition drop_header0 :: "cell list \<Rightarrow> dataframe \<Rightarrow> error + dataframe" where
  "drop_header0 headers df =
     (case headers of
        [] \<Rightarrow> Inl IndexError
      | h0 # _ \<Rightarrow> Inr (getitem_labels (filter (\<lambda>c. label_ne c h0) (columns df)) df))"

text \<open>The loop state: the list \<^verbatim>\<open>tables\<close> and \<^verbatim>\<open>headers\<close> (\<open>None\<close> before the first table).\<close>

type_synonym loop_state = "dataframe list \<times> cell list option"

definition table_step :: "loop_state \<Rightarrow> raw_table \<Rightarrow> error + loop_state" where
  "table_step st table =
     (case table_frame table of
        Inl e \<Rightarrow> Inl e
      | Inr df \<Rightarrow>
          (case snd st of
             None \<Rightarrow> Inr (fst st @ [df], Some (columns df))
           | Some headers \<Rightarrow>
               (case drop_header0 headers df of
                  Inl e \<Rightarrow> Inl e
                | Inr df' \<Rightarrow> Inr (fst st @ [df'], Some headers))))"

fun tables_loop :: "loop_state \<Rightarrow> raw_table list \<Rightarrow> error + loop_state" where
  "tables_loop st [] = Inr st"
| "tables_loop st (t # ts) =
     (case table_step st t of
        Inl e \<Rightarrow> Inl e
      | Inr st' \<Rightarrow> tables_loop st' ts)"

fun pages_loop :: "loop_state \<Rightarrow> raw_table list list \<Rightarrow> error + loop_state" where
  "pages_loop st [] = Inr st"
| "pages_loop st (p # ps) =
     (case tables_loop st p of
        Inl e \<Rightarrow> Inl e
      | Inr st' \<Rightarrow> pages_loop st' ps)"

section \<open>Merging the tables (lines 83 to 87)\<close>

text \<open>
  \<^verbatim>\<open>pd.concat(tables, ignore_index=True)\<close>: frames with equal column indexes are stacked;
  otherwise the columns are the labels of all frames in first-seen order, every frame is
  reindexed to them (a missing column is filled with nulls), and a frame whose labels
  repeat cannot be reindexed.
\<close>

fun union_labels :: "cell list \<Rightarrow> cell list \<Rightarrow> cell list" where
  "union_labels acc [] = acc"
| "union_labels acc (l # ls) = union_labels (if l \<in> set acc then acc else acc @ [l]) ls"

definition reindex_row :: "cell list \<Rightarrow> cell list \<Rightarrow> cell list \<Rightarrow> cell list" where
  "reindex_row new_labels old_labels r =
     map (\<lambda>l. case positions old_labels l of [] \<Rightarrow> None | j # _ \<Rightarrow> r ! j) new_labels"

definition reindex :: "cell list \<Rightarrow> dataframe \<Rightarrow> cell list list" where
  "reindex new_labels df = map (reindex_row new_labels (columns df)) (rows df)"

definition pd_concat :: "dataframe list \<Rightarrow> error + dataframe" where
  "pd_concat dfs =
     (case dfs of
        [] \<Rightarrow> Inl (ValueError ''No objects to concatenate'')
      | d # ds \<Rightarrow>
          if list_all (\<lambda>x. columns x = columns d) ds
          then Inr \<lparr>columns = columns d, rows = concat (map rows dfs)\<rparr>
          else if list_ex (\<lambda>x. \<not> distinct (columns x)) dfs
          then Inl InvalidIndexError
          else let u = union_labels [] (concat (map columns dfs))
               in Inr \<lparr>columns = u, rows = concat (map (reindex u) dfs)\<rparr>)"

text \<open>\<^verbatim>\<open>result_df.columns = headers\<close>: the number of labels must be the number of columns.\<close>

definition set_columns :: "cell list \<Rightarrow> dataframe \<Rightarrow> error + dataframe" where
  "set_columns headers df =
     (if length headers = length (columns df)
      then Inr (df\<lparr>columns := headers\<rparr>)
      else Inl (ValueError (''Length mismatch: Expected axis has '' @
                  str_nat (length (columns df)) @ '' elements, new values have '' @
                  str_nat (length headers) @ '' elements'')))"

definition merge :: "raw_table list list \<Rightarrow> error + dataframe" where
  "merge pages =
     (case pages_loop ([], None) pages of
        Inl e \<Rightarrow> Inl e
      | Inr (tables, headers) \<Rightarrow>
          if tables = [] then Inl (ValueError ''No tables found in the PDF.'')
          else
            (case pd_concat tables of
               Inl e \<Rightarrow> Inl e
             | Inr result_df \<Rightarrow>
                 (case headers of
                    None \<Rightarrow> Inl TypeError
                  | Some hs \<Rightarrow> set_columns hs result_df)))"

section \<open>Aggregation (lines 88 to 94)\<close>

text \<open>
  \<^verbatim>\<open>result_df.iloc[:, [1, -1]]\<close>: the second and the last column, by position; IndexError
  when there is no second column. The result is kept as the two labels and the rows as
  pairs.
\<close>

definition iloc_1_last :: "dataframe \<Rightarrow> error + ((cell \<times> cell) \<times> (cell \<times> cell) list)" where
  "iloc_1_last df =
     (let n = length (columns df) in
      if n < 2 then Inl IndexError
      else Inr ((columns df ! 1, columns df ! (n - 1)),
                map (\<lambda>r. (r ! 1, r ! (n - 1))) (rows df)))"

text \<open>
  \<^verbatim>\<open>.replace({'P': 1, 'A': 0})\<close> on the last column, cell by cell: a null stays null and
  any other string stays (\<open>series_replace\<close>). pandas then infers the type of the new
  column: when it holds numbers and nulls, at least one of each, and no string, the numbers
  become the floats 1.0 and 0.0; otherwise they are the ints 1 and 0. Line 89 stores the
  values back into the object column, where groupby adds them up with Python's \<^verbatim>\<open>+\<close>.
  The floats of this column and their sums are whole numbers, and the sums are exact (up
  to \<open>2 ^ 53\<close>); the model keeps every number as the int of its value and gives the Python
  type of the column's numbers beside it (\<open>number_type\<close>): it shows when a sum is printed.
\<close>

definition replace_dict :: "(string \<times> int) list" where
  "replace_dict = [(''P'', 1), (''A'', 0)]"

definition series_replace :: "(string \<times> int) list \<Rightarrow> cell \<Rightarrow> obj" where
  "series_replace d c =
     (case c of
        None \<Rightarrow> ONone
      | Some s \<Rightarrow> (case map_of d s of Some i \<Rightarrow> OInt i | None \<Rightarrow> OStr s))"

definition number_type :: "obj list \<Rightarrow> pytype" where
  "number_type column =
     (if list_ex (\<lambda>v. v = ONone) column \<and>
         list_ex (\<lambda>v. case v of OInt _ \<Rightarrow> True | _ \<Rightarrow> False) column \<and>
         list_all (\<lambda>v. case v of OStr _ \<Rightarrow> False | _ \<Rightarrow> True) column
      then PyFloat else PyInt)"

text \<open>
  \<^verbatim>\<open>groupby(label)\<close> with the defaults \<^verbatim>\<open>sort=True, dropna=True\<close>: one group for every
  non-null key, in ascending key order; rows with a null key are in no group.
\<close>

definition group_keys :: "(cell \<times> obj) list \<Rightarrow> string list" where
  "group_keys recs = sort (remdups (List.map_filter fst recs))"

definition group_values :: "string \<Rightarrow> (cell \<times> obj) list \<Rightarrow> obj list" where
  "group_values k recs = map snd (filter (\<lambda>r. fst r = Some k) recs)"

text \<open>
  \<^verbatim>\<open>'sum'\<close> of an object column: nulls are skipped, the first value is taken as it is and
  every later one is added with Python's \<^verbatim>\<open>+\<close>; a group with no value sums to 0.
  \<^verbatim>\<open>'count'\<close> is the number of non-null values.
\<close>

fun py_add :: "obj \<Rightarrow> obj \<Rightarrow> error + obj" where
  "py_add (OInt a) (OInt b) = Inr (OInt (a + b))"
| "py_add (OStr a) (OStr b) = Inr (OStr (a @ b))"
| "py_add _ _ = Inl TypeError"

fun group_sum :: "obj option \<Rightarrow> obj list \<Rightarrow> error + obj" where
  "group_sum acc [] = Inr (case acc of None \<Rightarrow> OInt 0 | Some s \<Rightarrow> s)"
| "group_sum acc (ONone # vs) = group_sum acc vs"
| "group_sum None (v # vs) = group_sum (Some v) vs"
| "group_sum (Some s) (v # vs) =
     (case py_add s v of
        Inl e \<Rightarrow> Inl e
      | Inr t \<Rightarrow> group_sum (Some t) vs)"

definition group_count :: "obj list \<Rightarrow> int" where
  "group_count vs = int (length (filter (\<lambda>v. v \<noteq> ONone) vs))"

text \<open>The \<^verbatim>\<open>agg\<close> call: sum and count of every group, the first failing sum raising.\<close>

fun agg_sum_count :: "(cell \<times> obj) list \<Rightarrow> string list \<Rightarrow> error + (string \<times> obj \<times> int) list" where
  "agg_sum_count recs [] = Inr []"
| "agg_sum_count recs (k # ks) =
     (case group_sum None (group_values k recs) of
        Inl e \<Rightarrow> Inl e
      | Inr s \<Rightarrow>
          (case agg_sum_count recs ks of
             Inl e \<Rightarrow> Inl e
           | Inr rest \<Rightarrow> Inr ((k, s, group_count (group_values k recs)) # rest)))"

text \<open>
  \<^verbatim>\<open>groupby\<close> by a label: \<^verbatim>\<open>None\<close> is no grouper (TypeError), and a label that both selected
  columns carry is not one column (ValueError, the message quoting the label).
\<close>

definition groupby_agg :: "cell \<times> cell \<Rightarrow> (cell \<times> obj) list \<Rightarrow> error + (string \<times> obj \<times> int) list" where
  "groupby_agg labels recs =
     (if fst labels = None then Inl TypeError
      else if fst labels = snd labels
        then Inl (ValueError (''Grouper for '' @ [CHR 0x27] @ the (fst labels) @ [CHR 0x27] @
                    '' not 1-dimensional''))
      else agg_sum_count recs (group_keys recs))"

text \<open>
  Line 94, row by row: a sum that is a string cannot be divided (TypeError), and a group
  whose count is 0 divides 0 by 0 (ZeroDivisionError). Otherwise the quotient is a float and
  so is its product with 100.
\<close>

fun add_percentage :: "pytype \<Rightarrow> (string \<times> obj \<times> int) list \<Rightarrow> error + course_stats list" where
  "add_percentage t [] = Inr []"
| "add_percentage t ((k, s, c) # gs) =
     (case s of
        OInt p \<Rightarrow>
          if c = 0 then Inl ZeroDivisionError
          else
            (case add_percentage t gs of
               Inl e \<Rightarrow> Inl e
             | Inr rest \<Rightarrow>
                 Inr (\<lparr>course = k, sum_present = p, sum_type = t, count_lecture = c,
                       percentage = float64 (float64 (of_int p / of_int c) * 100)\<rparr> # rest))
      | _ \<Rightarrow> Inl TypeError)"

definition aggregate :: "dataframe \<Rightarrow> error + course_stats list" where
  "aggregate result_df =
     (case iloc_1_last result_df of
        Inl e \<Rightarrow> Inl e
      | Inr (labels, recs) \<Rightarrow>
          (case groupby_agg labels (map (\<lambda>r. (fst r, series_replace replace_dict (snd r))) recs) of
             Inl e \<Rightarrow> Inl e
           | Inr grouped \<Rightarrow>
               add_percentage (number_type (map (\<lambda>r. series_replace replace_dict (snd r)) recs))
                 grouped))"

section \<open>The report text (lines 96 to 105)\<close>

text \<open>
  A number in an f-string: an int as its digits, a whole float as its digits and \<^verbatim>\<open>.0\<close>
  (Python writes a float with an exponent from \<open>10 ^ 16\<close> on; the numbers printed here are
  counts of rows).
\<close>

definition str_number :: "pytype \<Rightarrow> int \<Rightarrow> string" where
  "str_number t i = (case t of PyInt \<Rightarrow> str_int i | PyFloat \<Rightarrow> str_int i @ ''.0'')"

text \<open>
  The format \<^verbatim>\<open>:.2f\<close> of a float: its value rounded to two decimals, a tie going to the even
  neighbour, with the sign of the value.
\<close>

definition format_2f :: "rat \<Rightarrow> string" where
  "format_2f x =
     (let n = nat (round_half_even (\<bar>x\<bar> * 100)) in
      (if x < 0 then ''-'' else []) @ str_nat (n div 100) @ ''.'' @
      [digit (n mod 100 div 10), digit (n mod 10)])"

text \<open>
  The string literals of lines 99 to 102 start with these bytes in the source file
  (each is followed by a space in the literal).
\<close>

definition present_mark :: string where
  "present_mark = [CHR 0xE2, CHR 0x80, CHR 0x9A, CHR 0xC3, CHR 0xBA, CHR 0xC3, CHR 0x96]"

definition absent_mark :: string where
  "absent_mark = [CHR 0xE2, CHR 0x80, CHR 0x9A, CHR 0xC3, CHR 0xB9, CHR 0xC3, CHR 0xA5]"

definition total_mark :: string where
  "total_mark = [CHR 0xEF, CHR 0xA3, CHR 0xBF, CHR 0xC3, CHR 0xBC, CHR 0xC3, CHR 0xAC, CHR 0xC3, CHR 0xA4]"

definition percentage_mark :: string where
  "percentage_mark = [CHR 0xEF, CHR 0xA3, CHR 0xBF, CHR 0xC3, CHR 0xBC, CHR 0xC3, CHR 0xAC, CHR 0xC3, CHR 0xA0]"

text \<open>
  The five lines of one row, as the list comprehension writes them. The count is an int;
  the difference of the count and a float is a float.
\<close>

definition block_lines :: "course_stats \<Rightarrow> string list" where
  "block_lines row =
     [''Course: '' @ course row,
      present_mark @ '' Present: '' @ str_number (sum_type row) (sum_present row),
      absent_mark @ '' Absent: '' @ str_number (sum_type row) (count_lecture row - sum_present row),
      total_mark @ '' Total: '' @ str_int (count_lecture row),
      percentage_mark @ '' Percentage: '' @ format_2f (percentage row) @ ''%'']"

definition block :: "course_stats \<Rightarrow> string" where
  "block row = concat (map (\<lambda>l. l @ ''\<newline>'') (block_lines row))"

text \<open>\<^verbatim>\<open>sep.join(parts)\<close>.\<close>

fun join :: "string \<Rightarrow> string list \<Rightarrow> string" where
  "join sep [] = []"
| "join sep [x] = x"
| "join sep (x # y # ys) = x @ sep @ join sep (y # ys)"

definition report_text :: "course_stats list \<Rightarrow> string" where
  "report_text grouped_df = join ''\<newline>'' (map block grouped_df)"

section \<open>The chart (lines 112 to 139)\<close>

text \<open>
  The figure that \<^verbatim>\<open>savefig\<close> writes, as what the function puts into it: one bar for every
  row (course, height), one text above every bar (its height plus 2, the label), the axis
  labels, the title and the y range. The file system is a map from paths to figures.
\<close>

record figure =
  bars :: "(string \<times> rat) list"
  texts :: "(rat \<times> string) list"
  xlabel :: string
  ylabel :: string
  title :: string
  ylim :: "rat \<times> rat"

type_synonym files = "string \<rightharpoonup> figure"

definition draw :: "course_stats list \<Rightarrow> figure" where
  "draw grouped_df =
     \<lparr>bars = map (\<lambda>row. (course row, percentage row)) grouped_df,
      texts = map (\<lambda>row. (float64 (percentage row + 2), format_2f (percentage row) @ ''%''))
                grouped_df,
      xlabel = ''Course'',
      ylabel = ''Attendance Percentage'',
      title = ''Attendance Report'',
      ylim = (0, 110)\<rparr>"

text \<open>
  Two things outside the program decide whether the chart is written. \<^verbatim>\<open>plt.tight_layout\<close>
  (line 137) lays out the tick labels, which are the courses; matplotlib reads a label with
  two dollar signs as math text and raises a ValueError with the parser's message when it
  cannot parse it. \<^verbatim>\<open>plt.savefig\<close> (line 138) opens the path for writing and raises an OSError
  (FileNotFoundError, PermissionError, ...) when the operating system refuses. Both are
  parameters of the model: \<open>label_error\<close> gives the message for a label that cannot be laid
  out, \<open>can_open\<close> tells whether a path can be opened for writing. Nothing is written when
  either raises.
\<close>

record platform =
  label_error :: "string \<Rightarrow> string option"
  can_open :: "string \<Rightarrow> bool"

definition generate_chart ::
  "platform \<Rightarrow> course_stats list \<Rightarrow> string \<Rightarrow> files \<Rightarrow> (error + unit) \<times> files" where
  "generate_chart pf grouped_df chart_path fs =
     (case List.map_filter (label_error pf) (map course grouped_df) of
        msg # _ \<Rightarrow> (Inl (ValueError msg), fs)
      | [] \<Rightarrow>
          if can_open pf chart_path then (Inr (), fs(chart_path \<mapsto> draw grouped_df))
          else (Inl OSError, fs))"

section \<open>The pipeline (lines 64 to 110)\<close>

text \<open>
  \<^verbatim>\<open>os.path.join\<close> of two parts, on POSIX. \<^verbatim>\<open>TEMP_DIR\<close> is what \<^verbatim>\<open>tempfile.gettempdir()\<close>
  returned when the module was loaded; the model takes it as a parameter.
\<close>

definition path_join :: "string \<Rightarrow> string \<Rightarrow> string" where
  "path_join a b =
     (if b \<noteq> [] \<and> hd b = CHR ''/'' then b
      else if a = [] \<or> last a = CHR ''/'' then a @ b
      else a @ ''/'' @ b)"

definition process_pdf ::
  "platform \<Rightarrow> string \<Rightarrow> raw_table list list \<Rightarrow> files \<Rightarrow> (error + string \<times> string) \<times> files" where
  "process_pdf pf TEMP_DIR pages fs =
     (case merge pages of
        Inl e \<Rightarrow> (Inl e, fs)
      | Inr result_df \<Rightarrow>
          (case aggregate result_df of
             Inl e \<Rightarrow> (Inl e, fs)
           | Inr grouped_df \<Rightarrow>
               (let chart_path = path_join TEMP_DIR ''attendance_chart.png''
                in case generate_chart pf grouped_df chart_path fs of
                     (Inl e, fs') \<Rightarrow> (Inl e, fs')
                   | (Inr _, fs') \<Rightarrow> (Inr (report_text grouped_df, chart_path), fs'))))"

section \<open>Example inputs\<close>

text \<open>
  A report on two pages: both tables repeat the header, and the course \<open>Math\<close> has rows
  on both pages. The last column holds the status.
\<close>

definition example_header :: "cell list" where
  "example_header = [Some '''', Some ''Course'', Some ''Date1'', Some ''Date2'']"

definition example_page1 :: raw_table where
  "example_page1 =
     [example_header,
      [Some ''1'', Some ''Math'', Some ''P'', Some ''P''],
      [Some ''2'', Some ''Art'', Some ''A'', Some ''A'']]"

definition example_page2 :: raw_table where
  "example_page2 =
     [example_header,
      [Some ''3'', Some ''Math'', Some ''A'', Some ''A''],
      [Some ''4'', Some ''Math'', Some ''P'', Some ''P'']]"

definition example_merged :: dataframe where
  "example_merged =
     \<lparr>columns = example_header,
      rows = [[Some ''1'', Some ''Math'', Some ''P'', Some ''P''],
              [Some ''2'', Some ''Art'', Some ''A'', Some ''A''],
              [None, Some ''Math'', Some ''A'', Some ''A''],
              [None, Some ''Math'', Some ''P'', Some ''P'']]\<rparr>"

definition example_stats :: "course_stats list" where
  "example_stats =
     [\<lparr>course = ''Art'', sum_present = 0, sum_type = PyInt, count_lecture = 1, percentage = 0\<rparr>,
      \<lparr>course = ''Math'', sum_present = 2, sum_type = PyInt, count_lecture = 3,
       percentage = 2345624805922133 / 35184372088832\<rparr>]"

text \<open>The figure \<^verbatim>\<open>generate_chart\<close> draws when \<^verbatim>\<open>grouped_df\<close> has no rows.\<close>

definition empty_figure :: figure where
  "empty_figure =
     \<lparr>bars = [], texts = [], xlabel = ''Course'', ylabel = ''Attendance Percentage'',
      title = ''Attendance Report'', ylim = (0, 110)\<rparr>"

text \<open>
  A platform on which every label can be laid out and the files of \<^verbatim>\<open>/tmp\<close> can be written.
\<close>

definition example_platform :: platform where
  "example_platform = \<lparr>label_error = (\<lambda>l. None), can_open = (\<lambda>p. take 5 p = ''/tmp/'')\<rparr>"

text \<open>
  The same table as \<open>example_merged\<close> with the rows of the course \<open>Math\<close> in another
  order.
\<close>

definition example_shuffled :: dataframe where
  "example_shuffled =
     \<lparr>columns = example_header,
      rows = [[None, Some ''Math'', Some ''P'', Some ''P''],
              [Some ''2'', Some ''Art'', Some ''A'', Some ''A''],
              [Some ''1'', Some ''Math'', Some ''P'', Some ''P''],
              [None, Some ''Math'', Some ''A'', Some ''A'']]\<rparr>"

text \<open>A table with an empty status cell, one with a footer row, one with the status \<open>L\<close>.\<close>

definition null_status_table :: dataframe where
  "null_status_table =
     \<lparr>columns = [Some '''', Some ''Course'', Some ''Date1''],
      rows = [[Some ''1'', Some ''Math'', Some ''P''],
              [Some ''2'', Some ''Math'', None]]\<rparr>"

definition footer_table :: dataframe where
  "footer_table =
     \<lparr>columns = [Some '''', Some ''Course'', Some ''Date1''],
      rows = [[Some ''1'', Some ''Math'', Some ''P''],
              [None, None, Some ''Total'']]\<rparr>"

definition late_table :: dataframe where
  "late_table =
     \<lparr>columns = [Some '''', Some ''Course'', Some ''Date1''],
      rows = [[Some ''1'', Some ''Math'', Some ''P''],
              [Some ''2'', Some ''Math'', Some ''L'']]\<rparr>"



text \<open>One course with the statuses P, P, A, P, and its statistics.\<close>

definition ppap_table :: dataframe where
  "ppap_table =
     \<lparr>columns = [Some '''', Some ''Course'', Some ''Date1''],
      rows = [[Some ''1'', Some ''CourseA'', Some ''P''],
              [Some ''2'', Some ''CourseA'', Some ''P''],
              [Some ''3'', Some ''CourseA'', Some ''A''],
              [Some ''4'', Some ''CourseA'', Some ''P'']]\<rparr>"

definition ppap_stats :: course_stats where
  "ppap_stats = \<lparr>course = ''CourseA'', sum_present = 3, sum_type = PyInt, count_lecture = 4,
     percentage = 75\<rparr>"

section \<open>Notions of the statements\<close>

text \<open>
  The course cell of a row is its second cell, the status cell its last one (the table has
  as many columns as \<open>columns df\<close>); the rows of a course are those whose course cell is
  that course.
\<close>

definition course_cell :: "cell list \<Rightarrow> cell" where
  "course_cell r = r ! 1"

definition status_cell :: "dataframe \<Rightarrow> cell list \<Rightarrow> cell" where
  "status_cell df r = r ! (length (columns df) - 1)"

definition course_rows :: "dataframe \<Rightarrow> string \<Rightarrow> cell list list" where
  "course_rows df c = filter (\<lambda>r. course_cell r = Some c) (rows df)"

text \<open>The number a mapped status adds to a sum of ints: itself, and nothing for a null.\<close>

definition mapped_int :: "obj \<Rightarrow> int" where
  "mapped_int v = (case v of OInt i \<Rightarrow> i | _ \<Rightarrow> 0)"

text \<open>The two selected columns after the replacement, as \<open>aggregate\<close> groups them.\<close>

definition selected :: "dataframe \<Rightarrow> (cell \<times> obj) list" where
  "selected df = map (\<lambda>r. (course_cell r, series_replace replace_dict (status_cell df r))) (rows df)"

text \<open>
  Two sums of strings differ with the order of the rows, but both fail in the division;
  \<open>forget_text\<close> identifies them.
\<close>

definition forget_text :: "obj \<Rightarrow> obj" where
  "forget_text v = (case v of OStr _ \<Rightarrow> OStr [] | _ \<Rightarrow> v)"

definition forget_group :: "string \<times> obj \<times> int \<Rightarrow> string \<times> obj \<times> int" where
  "forget_group g = (fst g, forget_text (fst (snd g)), snd (snd g))"

text \<open>
  The lines of a text: the parts between its newline characters, as Python's
  \<^verbatim>\<open>str.split\<close> at the newline returns them.
\<close>

fun split_nl :: "string \<Rightarrow> string list" where
  "split_nl [] = [[]]"
| "split_nl (c # cs) =
     (if c = CHR ''\<newline>'' then [] # split_nl cs
      else (case split_nl cs of [] \<Rightarrow> [[c]] | l # ls \<Rightarrow> (c # l) # ls))"

section \<open>Floats: the exponent and the rounding\<close>

lemma power_int_2_pos: "0 < (2::rat) powi k"
  by (simp add: power_int_def)

text \<open>\<open>exponent x\<close> is the power of two at or below \<open>\<bar>x\<bar>\<close>.\<close>

lemma exponent_le: "x \<noteq> 0 \<Longrightarrow> 2 powi exponent x \<le> \<bar>x\<bar>"
proof -
  assume nz: "x \<noteq> 0"
  show ?thesis
  proof (cases "1 \<le> \<bar>x\<bar>")
    case True
    then have pos: "0 < \<lfloor>\<bar>x\<bar>\<rfloor>" by linarith
    from bitlen_bounds [OF pos] have "2 ^ nat (bitlen \<lfloor>\<bar>x\<bar>\<rfloor> - 1) \<le> \<lfloor>\<bar>x\<bar>\<rfloor>" by simp
    then have "(2::rat) ^ nat (bitlen \<lfloor>\<bar>x\<bar>\<rfloor> - 1) \<le> of_int \<lfloor>\<bar>x\<bar>\<rfloor>"
      by (metis of_int_le_iff of_int_numeral of_int_power)
    also have "\<dots> \<le> \<bar>x\<bar>" by simp
    finally have a: "(2::rat) ^ nat (bitlen \<lfloor>\<bar>x\<bar>\<rfloor> - 1) \<le> \<bar>x\<bar>" .
    from pos have "1 \<le> bitlen \<lfloor>\<bar>x\<bar>\<rfloor>"
      using bitlen_eq_zero_iff [of "\<lfloor>\<bar>x\<bar>\<rfloor>"] bitlen_nonneg [of "\<lfloor>\<bar>x\<bar>\<rfloor>"] by linarith
    then have "(2::rat) powi (bitlen \<lfloor>\<bar>x\<bar>\<rfloor> - 1) = 2 ^ nat (bitlen \<lfloor>\<bar>x\<bar>\<rfloor> - 1)"
      by (simp add: power_int_def)
    with a True show ?thesis by (simp add: exponent_def)
  next
    case False
    define y where "y = 1 / \<bar>x\<bar>"
    define N where "N = \<lceil>y\<rceil> - 1"
    from False nz have y1: "1 < y" by (simp add: y_def)
    then have pos: "0 < N" unfolding N_def by linarith
    from bitlen_bounds [OF pos] have "N < 2 ^ nat (bitlen N)" by simp
    then have "\<lceil>y\<rceil> \<le> 2 ^ nat (bitlen N)" by (simp add: N_def)
    then have "of_int \<lceil>y\<rceil> \<le> (2::rat) ^ nat (bitlen N)"
      by (metis of_int_le_iff of_int_numeral of_int_power)
    moreover have "y \<le> of_int \<lceil>y\<rceil>" by simp
    ultimately have b: "y \<le> 2 ^ nat (bitlen N)" by linarith
    have "(2::rat) powi (- bitlen N) = 1 / 2 ^ nat (bitlen N)"
      using bitlen_nonneg [of N] by (simp add: power_int_def field_simps)
    also have "\<dots> \<le> 1 / y"
      using b y1 by (intro divide_left_mono) auto
    also have "\<dots> = \<bar>x\<bar>" by (simp add: y_def)
    finally show ?thesis using False by (simp add: exponent_def y_def N_def)
  qed
qed

lemma exponent_gt: "x \<noteq> 0 \<Longrightarrow> \<bar>x\<bar> < 2 powi (exponent x + 1)"
proof -
  assume nz: "x \<noteq> 0"
  show ?thesis
  proof (cases "1 \<le> \<bar>x\<bar>")
    case True
    then have pos: "0 < \<lfloor>\<bar>x\<bar>\<rfloor>" by linarith
    from bitlen_bounds [OF pos] have "\<lfloor>\<bar>x\<bar>\<rfloor> + 1 \<le> 2 ^ nat (bitlen \<lfloor>\<bar>x\<bar>\<rfloor>)" by simp
    then have "of_int (\<lfloor>\<bar>x\<bar>\<rfloor> + 1) \<le> (2::rat) ^ nat (bitlen \<lfloor>\<bar>x\<bar>\<rfloor>)"
      by (metis of_int_le_iff of_int_numeral of_int_power)
    moreover have "\<bar>x\<bar> < of_int (\<lfloor>\<bar>x\<bar>\<rfloor> + 1)" by linarith
    ultimately have a: "\<bar>x\<bar> < (2::rat) ^ nat (bitlen \<lfloor>\<bar>x\<bar>\<rfloor>)" by linarith
    have "(2::rat) powi (bitlen \<lfloor>\<bar>x\<bar>\<rfloor>) = 2 ^ nat (bitlen \<lfloor>\<bar>x\<bar>\<rfloor>)"
      using bitlen_nonneg [of "\<lfloor>\<bar>x\<bar>\<rfloor>"] by (simp add: power_int_def)
    with a True show ?thesis by (simp add: exponent_def)
  next
    case False
    define y where "y = 1 / \<bar>x\<bar>"
    define N where "N = \<lceil>y\<rceil> - 1"
    from False nz have y1: "1 < y" by (simp add: y_def)
    then have pos: "0 < N" unfolding N_def by linarith
    have k1: "1 \<le> bitlen N"
      using pos bitlen_eq_zero_iff [of N] bitlen_nonneg [of N] by linarith
    from bitlen_bounds [OF pos] have "2 ^ nat (bitlen N - 1) \<le> N" by simp
    then have "(2::rat) ^ nat (bitlen N - 1) \<le> of_int N"
      by (metis of_int_le_iff of_int_numeral of_int_power)
    moreover have "of_int N < y" unfolding N_def by linarith
    ultimately have b: "(2::rat) ^ nat (bitlen N - 1) < y" by linarith
    have "\<bar>x\<bar> = 1 / y" by (simp add: y_def)
    also have "\<dots> < 1 / 2 ^ nat (bitlen N - 1)"
      using b y1 by (intro divide_strict_left_mono) (auto simp: zero_less_mult_iff)
    also have "\<dots> = (2::rat) powi (- bitlen N + 1)"
      using k1 by (simp add: power_int_def field_simps)
    finally show ?thesis using False by (simp add: exponent_def y_def N_def)
  qed
qed

lemma round_half_even_le: "x \<le> of_int n \<Longrightarrow> round_half_even x \<le> n"
proof -
  assume a: "x \<le> of_int n"
  then have f: "\<lfloor>x\<rfloor> \<le> n" by (simp add: floor_le_iff)
  show ?thesis
  proof (cases "\<lfloor>x\<rfloor> = n")
    case True
    with a have "x - of_int \<lfloor>x\<rfloor> \<le> 0" by simp
    then show ?thesis using True by (simp add: round_half_even_def Let_def)
  next
    case False
    with f have "\<lfloor>x\<rfloor> + 1 \<le> n" by simp
    then show ?thesis by (simp add: round_half_even_def Let_def)
  qed
qed

lemma round_half_even_ge: "of_int n \<le> x \<Longrightarrow> n \<le> round_half_even x"
proof -
  assume "of_int n \<le> x"
  then have "n \<le> \<lfloor>x\<rfloor>" by (simp add: le_floor_iff)
  then show ?thesis by (simp add: round_half_even_def Let_def)
qed

lemma float64_nonneg: "0 \<le> x \<Longrightarrow> 0 \<le> float64 x"
proof (cases "x = 0")
  case True
  then show ?thesis by (simp add: float64_def)
next
  case False
  assume "0 \<le> x"
  then have "of_int 0 \<le> x / 2 powi (exponent x - 52)"
    using power_int_2_pos [of "exponent x - 52"] by simp
  from round_half_even_ge [OF this] show ?thesis
    using power_int_2_pos [of "exponent x - 52"] False by (simp add: float64_def Let_def)
qed

text \<open>
  Rounding does not cross a number of the grid: a multiple of a power of two that is at
  least the distance of the floats around \<open>x\<close>.
\<close>

lemma float64_le_grid:
  assumes "x \<noteq> 0" and "x \<le> of_int m * 2 powi k" and "exponent x - 52 \<le> k"
  shows "float64 x \<le> of_int m * 2 powi k"
proof -
  define u :: rat where "u = 2 powi (exponent x - 52)"
  define j where "j = nat (k - (exponent x - 52))"
  have u: "0 < u" by (simp add: u_def power_int_2_pos)
  have "(2::rat) powi k = 2 powi (exponent x - 52 + int j)"
    using assms(3) by (simp add: j_def)
  also have "\<dots> = u * 2 ^ j"
    by (simp add: power_int_add u_def)
  finally have k: "(2::rat) powi k = u * 2 ^ j" .
  have "x / u \<le> of_int m * 2 ^ j"
    using assms(2) u by (simp add: k field_simps)
  also have "\<dots> = of_int (m * 2 ^ j)" by simp
  finally have "round_half_even (x / u) \<le> m * 2 ^ j" by (rule round_half_even_le)
  then have "of_int (round_half_even (x / u)) \<le> (of_int (m * 2 ^ j) :: rat)"
    by (simp only: of_int_le_iff)
  then have "of_int (round_half_even (x / u)) * u \<le> of_int (m * 2 ^ j) * u"
    using u by (simp only: mult_le_cancel_right_pos)
  then show ?thesis using assms(1) by (simp add: float64_def Let_def u_def [symmetric] k mult_ac)
qed

lemma power_int_2_mono: "(2::rat) powi a \<le> x \<Longrightarrow> x < 2 powi b \<Longrightarrow> a < b"
proof -
  assume "(2::rat) powi a \<le> x" and "x < 2 powi b"
  then have lt: "(2::rat) powi a < 2 powi b" by linarith
  show ?thesis
  proof (rule ccontr)
    assume "\<not> a < b"
    then have "b \<le> a" by simp
    then have "(2::rat) powi b \<le> 2 powi a" by (intro power_int_increasing) simp_all
    with lt show False by simp
  qed
qed

lemma float64_le_1: "0 \<le> x \<Longrightarrow> x \<le> 1 \<Longrightarrow> float64 x \<le> 1"
proof (cases "x = 0")
  case True
  then show ?thesis by (simp add: float64_def)
next
  case False
  assume a: "0 \<le> x" "x \<le> 1"
  with exponent_le [OF False] have "(2::rat) powi exponent x \<le> x" by simp
  moreover have "x < 2 powi 1" using a by simp
  ultimately have "exponent x < 1" by (rule power_int_2_mono)
  with float64_le_grid [of x 1 0] False a show ?thesis by simp
qed

lemma float64_le_100: "0 \<le> x \<Longrightarrow> x \<le> 100 \<Longrightarrow> float64 x \<le> 100"
proof (cases "x = 0")
  case True
  then show ?thesis by (simp add: float64_def)
next
  case False
  assume a: "0 \<le> x" "x \<le> 100"
  with exponent_le [OF False] have "(2::rat) powi exponent x \<le> x" by simp
  moreover have "x < 2 powi 7" using a by simp
  ultimately have "exponent x < 7" by (rule power_int_2_mono)
  with float64_le_grid [of x 100 0] False a show ?thesis by simp
qed

lemma percentage_bounds:
  assumes "0 \<le> p" and "p \<le> c" and "0 < c"
  shows "0 \<le> float64 (float64 (of_int p / of_int c) * 100) \<and>
         float64 (float64 (of_int p / of_int c) * 100) \<le> 100"
proof -
  define q :: rat where "q = float64 (of_int p / of_int c)"
  have "(0::rat) \<le> of_int p / of_int c" "(of_int p / of_int c :: rat) \<le> 1"
    using assms by simp_all
  then have "0 \<le> q" "q \<le> 1"
    unfolding q_def by (simp_all add: float64_nonneg float64_le_1)
  then have "0 \<le> q * 100" "q * 100 \<le> 100" by simp_all
  then show ?thesis
    unfolding q_def by (simp add: float64_nonneg float64_le_100)
qed

text \<open>
  The floats of the examples. The percentage of 2 of 3 and of 23 of 160 is not the exact
  quotient times 100: Python prints them as 66.66666666666666 and 14.374999999999998.
\<close>

lemma float64_0: "float64 0 = 0"
  by (simp add: float64_def)

lemma float64_1: "float64 1 = 1"
  by code_simp

lemma float64_100: "float64 100 = 100"
  by code_simp

lemma float64_75: "float64 (3 / 4) = 3 / 4 \<and> float64 75 = 75"
  by code_simp

lemma percentage_2_of_3: "float64 (float64 (2 / 3) * 100) = 2345624805922133 / 35184372088832"
  by code_simp

lemma percentage_23_of_160:
  "float64 (float64 (23 / 160) * 100) = 8092405580431359 / 562949953421312"
  by code_simp

lemma percentage_not_exact: "float64 (float64 (23 / 160) * 100) \<noteq> 100 * 23 / 160"
  by (simp add: percentage_23_of_160)

lemmas float64_values =
  float64_0 float64_1 float64_100 float64_75 percentage_2_of_3 percentage_23_of_160

section \<open>The example, evaluated\<close>

lemma example_merge: "merge [[example_page1], [example_page2]] = Inr example_merged"
  by (simp add: merge_def table_step_def table_frame_def DataFrame_def pad_row_def
      drop_header0_def getitem_labels_def take_cols_def positions_def label_ne_def
      pd_concat_def reindex_def reindex_row_def set_columns_def
      example_header_def example_page1_def example_page2_def example_merged_def)

lemma example_aggregate: "aggregate example_merged = Inr example_stats"
  by (simp add: aggregate_def iloc_1_last_def groupby_agg_def group_keys_def group_values_def
      group_count_def series_replace_def replace_dict_def List.map_filter_def number_type_def
      float64_values example_merged_def example_header_def example_stats_def)

lemma example_process:
  "process_pdf example_platform ''/tmp'' [[example_page1], [example_page2]] fs =
     (Inr (report_text example_stats, ''/tmp/attendance_chart.png''),
      fs(''/tmp/attendance_chart.png'' \<mapsto> draw example_stats))"
  by (simp add: process_pdf_def example_merge example_aggregate path_join_def generate_chart_def
      List.map_filter_def example_platform_def Let_def)

section \<open>The status mapping\<close>

text \<open>
  C2: the mapping of the status column sends \<open>P\<close> to 1 and \<open>A\<close> to 0 and leaves every
  other cell as it is: a null stays null, and any other string stays that string in the
  column that is aggregated.
\<close>

theorem status_mapping:
  "series_replace replace_dict (Some ''P'') = OInt 1 \<and>
   series_replace replace_dict (Some ''A'') = OInt 0 \<and>
   series_replace replace_dict None = ONone \<and>
   (s \<noteq> ''P'' \<and> s \<noteq> ''A'' \<longrightarrow> series_replace replace_dict (Some s) = OStr s)"
  by (simp add: series_replace_def replace_dict_def)

theorem status_mapping_witness:
  "series_replace replace_dict (Some ''L'') = OStr ''L''"
  using status_mapping [of "''L''"] by simp

section \<open>No tables\<close>

lemma pages_loop_no_tables: "concat pages = [] \<Longrightarrow> pages_loop st pages = Inr st"
  by (induction pages arbitrary: st) auto

text \<open>
  C4: when no page yields a table, the merge raises the ValueError ``No tables found in the
  PDF.'', so \<^verbatim>\<open>process_pdf\<close> returns no report and writes no file.
\<close>

theorem no_tables_found:
  "concat pages = [] \<Longrightarrow>
     merge pages = Inl (ValueError ''No tables found in the PDF.'') \<and>
     process_pdf pf TEMP_DIR pages fs = (Inl (ValueError ''No tables found in the PDF.''), fs)"
  by (simp add: merge_def process_pdf_def pages_loop_no_tables)

theorem no_tables_found_witness:
  "merge [[], []] = Inl (ValueError ''No tables found in the PDF.'') \<and>
   process_pdf example_platform ''/tmp'' [[], []] Map.empty =
     (Inl (ValueError ''No tables found in the PDF.''), Map.empty)"
  using no_tables_found [of "[[], []]" example_platform "''/tmp''" Map.empty] by simp

section \<open>The chart file\<close>

text \<open>
  C9 as stated fails: \<^verbatim>\<open>generate_chart\<close> has no check of its input. With no rows, on a
  platform where the path can be written, it raises nothing, draws a chart without bars and
  writes it to the path.
\<close>

theorem render_empty_counterexample:
  "generate_chart example_platform [] ''/tmp/attendance_chart.png'' Map.empty =
     (Inr (), [''/tmp/attendance_chart.png'' \<mapsto> empty_figure])"
  by (simp add: generate_chart_def draw_def empty_figure_def example_platform_def
      List.map_filter_def)

lemma header_only_merge:
  "merge [[[[a, b, c]]]] = Inr \<lparr>columns = [a, b, c], rows = []\<rparr>"
  by (simp add: merge_def table_step_def table_frame_def DataFrame_def pad_row_def
      pd_concat_def set_columns_def)

lemma header_only_aggregate:
  "b \<noteq> None \<Longrightarrow> b \<noteq> c \<Longrightarrow> aggregate \<lparr>columns = [a, b, c], rows = []\<rparr> = Inr []"
  by (simp add: aggregate_def iloc_1_last_def groupby_agg_def group_keys_def List.map_filter_def)

text \<open>
  C9 (amended): for empty statistics \<^verbatim>\<open>generate_chart\<close> raises no error of its own. When the
  output path can be opened for writing it writes the chart without bars there, whatever was
  there, and raises nothing; when the path cannot be opened, the OSError of \<^verbatim>\<open>savefig\<close> is
  raised and no file is written. \<^verbatim>\<open>process_pdf\<close> on a single header-only table with three
  columns (second label not null and different from the last) reaches this: it returns the
  empty report and writes that chart, or raises that OSError.
\<close>

theorem render_empty_writes:
  "generate_chart pf [] chart_path fs =
     (if can_open pf chart_path then (Inr (), fs(chart_path \<mapsto> empty_figure))
      else (Inl OSError, fs)) \<and>
   (b \<noteq> None \<and> b \<noteq> c \<longrightarrow>
      process_pdf pf TEMP_DIR [[[[a, b, c]]]] fs =
        (if can_open pf (path_join TEMP_DIR ''attendance_chart.png'')
         then (Inr ([], path_join TEMP_DIR ''attendance_chart.png''),
               fs(path_join TEMP_DIR ''attendance_chart.png'' \<mapsto> empty_figure))
         else (Inl OSError, fs)))"
  by (simp add: generate_chart_def draw_def empty_figure_def process_pdf_def header_only_merge
      header_only_aggregate List.map_filter_def report_text_def Let_def)

theorem render_empty_writes_witness:
  "process_pdf example_platform ''/tmp'' [[[[Some '''', Some ''Course'', Some ''Date1'']]]] Map.empty =
     (Inr ([], ''/tmp/attendance_chart.png''), [''/tmp/attendance_chart.png'' \<mapsto> empty_figure]) \<and>
   generate_chart example_platform [] ''/no_such_dir/chart.png'' Map.empty = (Inl OSError, Map.empty)"
  using render_empty_writes [of example_platform "''/no_such_dir/chart.png''" Map.empty
      "Some ''Course''" "Some ''Date1''" "''/tmp''" "Some ''''"]
  by (simp add: path_join_def example_platform_def)

text \<open>
  C10: whatever the pages and the platform are, \<^verbatim>\<open>process_pdf\<close> either raises and leaves the
  files as they were, or returns the path \<^verbatim>\<open>TEMP_DIR/attendance_chart.png\<close> and has written
  the chart to exactly that path. The path depends on \<^verbatim>\<open>TEMP_DIR\<close> alone; no argument chooses
  it.
\<close>

theorem chart_path_fixed:
  "(\<exists>e. process_pdf pf TEMP_DIR pages fs = (Inl e, fs)) \<or>
   (\<exists>text fig. process_pdf pf TEMP_DIR pages fs =
      (Inr (text, path_join TEMP_DIR ''attendance_chart.png''),
       fs(path_join TEMP_DIR ''attendance_chart.png'' \<mapsto> fig)))"
  by (auto simp: process_pdf_def generate_chart_def Let_def split: sum.splits list.splits)

theorem chart_path_fixed_witness:
  "\<exists>text fig. process_pdf example_platform ''/tmp'' [[example_page1], [example_page2]] Map.empty =
     (Inr (text, ''/tmp/attendance_chart.png''), [''/tmp/attendance_chart.png'' \<mapsto> fig])"
proof -
  have "\<not> (\<exists>e. process_pdf example_platform ''/tmp'' [[example_page1], [example_page2]] Map.empty
              = (Inl e, Map.empty))"
    by (simp add: example_process)
  with chart_path_fixed [of example_platform "''/tmp''" "[[example_page1], [example_page2]]" Map.empty]
  show ?thesis by (simp add: path_join_def)
qed

section \<open>Aggregation: sums, counts and percentages\<close>

subsection \<open>The sum of a group\<close>

lemma py_add_error: "py_add a b = Inl e \<Longrightarrow> e = TypeError"
  by (induction a b rule: py_add.induct) auto

lemma group_sum_error: "group_sum acc vs = Inl e \<Longrightarrow> e = TypeError"
  by (induction acc vs rule: group_sum.induct) (auto split: sum.splits dest: py_add_error)

lemma group_sum_ints:
  "\<forall>v\<in>set vs. \<forall>s. v \<noteq> OStr s \<Longrightarrow>
     group_sum None vs = Inr (OInt (sum_list (map mapped_int vs))) \<and>
     (\<forall>a. group_sum (Some (OInt a)) vs = Inr (OInt (a + sum_list (map mapped_int vs))))"
proof (induction vs)
  case Nil
  then show ?case by simp
next
  case (Cons v vs)
  then show ?case by (cases v) (auto simp: mapped_int_def)
qed

lemma group_sum_strs:
  "\<forall>v\<in>set vs. \<forall>i. v \<noteq> OInt i \<Longrightarrow>
     (\<forall>t. \<exists>u. group_sum (Some (OStr t)) vs = Inr (OStr u)) \<and>
     ((\<exists>s. OStr s \<in> set vs) \<longrightarrow> (\<exists>u. group_sum None vs = Inr (OStr u)))"
proof (induction vs)
  case Nil
  then show ?case by simp
next
  case (Cons v vs)
  then show ?case by (cases v) auto
qed

lemma group_sum_mixed:
  "(OStr s \<in> set vs \<longrightarrow> (\<forall>a. group_sum (Some (OInt a)) vs = Inl TypeError)) \<and>
   (OInt i \<in> set vs \<longrightarrow> (\<forall>t. group_sum (Some (OStr t)) vs = Inl TypeError)) \<and>
   (OInt i \<in> set vs \<longrightarrow> OStr s \<in> set vs \<longrightarrow> group_sum None vs = Inl TypeError)"
proof (induction vs)
  case Nil
  then show ?case by simp
next
  case (Cons v vs)
  then show ?case by (cases v) auto
qed

text \<open>A group with a string in it never sums to an int.\<close>

lemma group_sum_str_not_int:
  assumes "OStr s \<in> set vs"
  shows "group_sum None vs \<noteq> Inr (OInt p)"
proof (cases "\<exists>i. OInt i \<in> set vs")
  case True
  then obtain i where "OInt i \<in> set vs" ..
  with assms group_sum_mixed [of s vs i] show ?thesis by simp
next
  case False
  then have "\<forall>v\<in>set vs. \<forall>i. v \<noteq> OInt i" by auto
  from group_sum_strs [OF this] assms obtain u where "group_sum None vs = Inr (OStr u)"
    by blast
  then show ?thesis by simp
qed

lemma group_sum_int_iff:
  "group_sum None vs = Inr (OInt p) \<longleftrightarrow>
     (\<forall>v\<in>set vs. \<forall>s. v \<noteq> OStr s) \<and> p = sum_list (map mapped_int vs)"
proof
  assume a: "group_sum None vs = Inr (OInt p)"
  have n: "\<forall>v\<in>set vs. \<forall>s. v \<noteq> OStr s"
    using a group_sum_str_not_int by blast
  with group_sum_ints [OF n] a show "(\<forall>v\<in>set vs. \<forall>s. v \<noteq> OStr s) \<and> p = sum_list (map mapped_int vs)"
    by simp
next
  assume "(\<forall>v\<in>set vs. \<forall>s. v \<noteq> OStr s) \<and> p = sum_list (map mapped_int vs)"
  then show "group_sum None vs = Inr (OInt p)"
    using group_sum_ints [of vs] by simp
qed

subsection \<open>The groups and the percentage\<close>

lemma agg_sum_count_Inr:
  "agg_sum_count recs ks = Inr gs \<Longrightarrow>
     map fst gs = ks \<and>
     (\<forall>g\<in>set gs. group_sum None (group_values (fst g) recs) = Inr (fst (snd g)) \<and>
                  snd (snd g) = group_count (group_values (fst g) recs))"
  by (induction ks arbitrary: gs) (auto split: sum.splits)

lemma agg_sum_count_Inl:
  "agg_sum_count recs ks = Inl e \<Longrightarrow> e = TypeError"
  by (induction ks) (auto split: sum.splits dest: group_sum_error)

lemma add_percentage_Inr:
  "add_percentage t gs = Inr stats \<Longrightarrow>
     map course stats = map fst gs \<and>
     (\<forall>st\<in>set stats. (course st, OInt (sum_present st), count_lecture st) \<in> set gs \<and>
        count_lecture st \<noteq> 0 \<and> sum_type st = t \<and>
        percentage st = float64 (float64 (of_int (sum_present st) / of_int (count_lecture st)) * 100))"
proof (induction t gs arbitrary: stats rule: add_percentage.induct)
  case (1 t)
  then show ?case by simp
next
  case (2 t k s c gs)
  then show ?case by (cases s) (auto split: if_splits sum.splits)
qed

lemma add_percentage_bad:
  "(k, s, c) \<in> set gs \<Longrightarrow> \<forall>p. s \<noteq> OInt p \<Longrightarrow>
     add_percentage t gs = Inl TypeError \<or> add_percentage t gs = Inl ZeroDivisionError"
proof (induction gs)
  case Nil
  then show ?case by simp
next
  case (Cons g gs)
  obtain k' s' c' where g: "g = (k', s', c')" by (cases g)
  show ?case
  proof (cases "(k, s, c) = g")
    case True
    with Cons.prems g show ?thesis by (cases s') auto
  next
    case False
    with Cons have "add_percentage t gs = Inl TypeError \<or> add_percentage t gs = Inl ZeroDivisionError"
      by auto
    then show ?thesis unfolding g by (cases s') auto
  qed
qed

lemma aggregate_unfold:
  "aggregate df =
     (if length (columns df) < 2 then Inl IndexError
      else if columns df ! 1 = None then Inl TypeError
      else if columns df ! 1 = columns df ! (length (columns df) - 1)
        then Inl (ValueError (''Grouper for '' @ [CHR 0x27] @ the (columns df ! 1) @ [CHR 0x27] @
                    '' not 1-dimensional''))
      else (case agg_sum_count (selected df) (group_keys (selected df)) of
              Inl e \<Rightarrow> Inl e
            | Inr grouped \<Rightarrow> add_percentage (number_type (map snd (selected df))) grouped))"
  by (simp add: aggregate_def iloc_1_last_def groupby_agg_def selected_def course_cell_def
      status_cell_def Let_def comp_def split: sum.splits)

lemma group_values_selected:
  "group_values c (selected df) =
     map (\<lambda>r. series_replace replace_dict (status_cell df r)) (course_rows df c)"
  by (simp add: group_values_def selected_def course_rows_def filter_map comp_def)

lemma group_keys_selected:
  "group_keys (selected df) = sort (remdups (List.map_filter course_cell (rows df)))"
  by (simp add: group_keys_def selected_def List.map_filter_def filter_map comp_def)

lemma series_replace_OStr:
  "series_replace replace_dict c = OStr s \<longleftrightarrow> c = Some s \<and> s \<noteq> ''P'' \<and> s \<noteq> ''A''"
  by (auto simp: series_replace_def replace_dict_def split: option.splits if_splits)

lemma series_replace_ONone: "series_replace replace_dict c = ONone \<longleftrightarrow> c = None"
  by (auto simp: series_replace_def replace_dict_def split: option.splits if_splits)

lemma mapped_int_replace:
  "mapped_int (series_replace replace_dict c) = (if c = Some ''P'' then 1 else 0)"
  by (auto simp: mapped_int_def series_replace_def replace_dict_def split: option.splits)

lemma sum_list_indicator:
  "sum_list (map (\<lambda>x. if P x then 1 else 0) xs) = int (length (filter P xs))"
  by (induction xs) auto

lemma group_count_replace:
  "group_count (map (\<lambda>r. series_replace replace_dict (f r)) xs)
     = int (length (filter (\<lambda>r. f r \<noteq> None) xs))"
  by (simp add: group_count_def filter_map comp_def series_replace_ONone)

lemma aggregate_Inr_rows:
  assumes "aggregate df = Inr stats"
  shows "map course stats = sort (remdups (List.map_filter course_cell (rows df)))"
    and "st \<in> set stats \<Longrightarrow>
           (\<forall>r\<in>set (course_rows df (course st)).
               status_cell df r = None \<or> status_cell df r = Some ''P'' \<or> status_cell df r = Some ''A'') \<and>
           sum_present st =
             int (length (filter (\<lambda>r. status_cell df r = Some ''P'') (course_rows df (course st)))) \<and>
           count_lecture st =
             int (length (filter (\<lambda>r. status_cell df r \<noteq> None) (course_rows df (course st)))) \<and>
           count_lecture st \<noteq> 0 \<and>
           percentage st = float64 (float64 (of_int (sum_present st) / of_int (count_lecture st)) * 100)"
proof -
  from assms obtain gs where
    agg: "agg_sum_count (selected df) (group_keys (selected df)) = Inr gs" and
    pct: "add_percentage (number_type (map snd (selected df))) gs = Inr stats"
    by (auto simp: aggregate_unfold split: if_splits sum.splits)
  from agg_sum_count_Inr [OF agg] add_percentage_Inr [OF pct]
  show "map course stats = sort (remdups (List.map_filter course_cell (rows df)))"
    by (simp add: group_keys_selected)
  assume st: "st \<in> set stats"
  let ?g = "course_rows df (course st)"
  let ?vs = "map (\<lambda>r. series_replace replace_dict (status_cell df r)) ?g"
  from add_percentage_Inr [OF pct] st have
    mem: "(course st, OInt (sum_present st), count_lecture st) \<in> set gs" and
    nz: "count_lecture st \<noteq> 0" and
    p: "percentage st = float64 (float64 (of_int (sum_present st) / of_int (count_lecture st)) * 100)"
    by auto
  from agg_sum_count_Inr [OF agg] mem have
    s: "group_sum None ?vs = Inr (OInt (sum_present st))" and
    c: "count_lecture st = group_count ?vs"
    by (auto simp: group_values_selected)
  from s have no_str: "\<forall>v\<in>set ?vs. \<forall>s. v \<noteq> OStr s"
    and sum: "sum_present st = sum_list (map mapped_int ?vs)"
    by (simp_all add: group_sum_int_iff)
  have cells: "\<forall>r\<in>set ?g.
      status_cell df r = None \<or> status_cell df r = Some ''P'' \<or> status_cell df r = Some ''A''"
  proof
    fix r assume r: "r \<in> set ?g"
    show "status_cell df r = None \<or> status_cell df r = Some ''P'' \<or> status_cell df r = Some ''A''"
    proof (cases "status_cell df r")
      case None
      then show ?thesis by simp
    next
      case (Some x)
      from no_str r have "series_replace replace_dict (status_cell df r) \<noteq> OStr x" by auto
      with Some show ?thesis by (simp add: series_replace_OStr)
    qed
  qed
  from sum have sum': "sum_present st = int (length (filter (\<lambda>r. status_cell df r = Some ''P'') ?g))"
    by (simp add: comp_def mapped_int_replace sum_list_indicator)
  from c have c': "count_lecture st = int (length (filter (\<lambda>r. status_cell df r \<noteq> None) ?g))"
    by (simp add: group_count_replace)
  from cells sum' c' nz p
  show "(\<forall>r\<in>set ?g.
               status_cell df r = None \<or> status_cell df r = Some ''P'' \<or> status_cell df r = Some ''A'') \<and>
           sum_present st = int (length (filter (\<lambda>r. status_cell df r = Some ''P'') ?g)) \<and>
           count_lecture st = int (length (filter (\<lambda>r. status_cell df r \<noteq> None) ?g)) \<and>
           count_lecture st \<noteq> 0 \<and>
           percentage st = float64 (float64 (of_int (sum_present st) / of_int (count_lecture st)) * 100)"
    by blast
qed

lemma aggregate_sum_type:
  assumes "aggregate df = Inr stats" and "st \<in> set stats"
  shows "sum_type st = number_type (map snd (selected df))"
proof -
  from assms(1) obtain gs where
    "add_percentage (number_type (map snd (selected df))) gs = Inr stats"
    by (auto simp: aggregate_unfold split: if_splits sum.splits)
  from add_percentage_Inr [OF this] assms(2) show ?thesis by blast
qed

lemma filter_length_mono:
  "(\<And>x. P x \<Longrightarrow> Q x) \<Longrightarrow> length (filter P xs) \<le> length (filter Q xs)"
  by (induction xs) auto

lemma stats_bounds_aux:
  assumes "aggregate df = Inr stats" and "st \<in> set stats"
  shows "0 \<le> sum_present st \<and> sum_present st \<le> count_lecture st \<and> 0 < count_lecture st \<and>
         0 \<le> percentage st \<and> percentage st \<le> 100"
proof -
  let ?g = "course_rows df (course st)"
  from aggregate_Inr_rows(2) [OF assms] have
    s: "sum_present st = int (length (filter (\<lambda>r. status_cell df r = Some ''P'') ?g))" and
    c: "count_lecture st = int (length (filter (\<lambda>r. status_cell df r \<noteq> None) ?g))" and
    nz: "count_lecture st \<noteq> 0" and
    p: "percentage st = float64 (float64 (of_int (sum_present st) / of_int (count_lecture st)) * 100)"
    by blast+
  have le: "sum_present st \<le> count_lecture st"
    unfolding s c using filter_length_mono [of "\<lambda>r. status_cell df r = Some ''P''" "\<lambda>r. status_cell df r \<noteq> None" ?g]
    by simp
  have pos: "0 < count_lecture st" using c nz by simp
  have nonneg: "0 \<le> sum_present st" using s by simp
  from percentage_bounds [OF nonneg le pos] p
  have "0 \<le> percentage st \<and> percentage st \<le> 100" by simp
  with le pos nonneg show ?thesis by simp
qed

lemmas aggregate_eval =
  aggregate_def iloc_1_last_def groupby_agg_def group_keys_def group_values_def
  group_count_def series_replace_def replace_dict_def List.map_filter_def number_type_def
  float64_values

text \<open>
  C1 as stated fails on a status cell that is null: \<^verbatim>\<open>'count'\<close> counts the non-null status
  cells, so the course below has two rows and a lecture count of 1.
\<close>

theorem lecture_count_counterexample:
  "aggregate null_status_table =
     Inr [\<lparr>course = ''Math'', sum_present = 1, sum_type = PyFloat, count_lecture = 1,
          percentage = 100\<rparr>] \<and>
   length (course_rows null_status_table ''Math'') = 2"
  by (simp add: aggregate_eval null_status_table_def course_rows_def course_cell_def)

text \<open>
  C1 (amended): whenever \<open>aggregate\<close> returns, it returns one row for every distinct non-null
  course (second column), in ascending order of the course; and for every course the sum
  is the sum of the mapped status values (last column) of its rows, which is the number of
  its rows with status \<open>P\<close>, and is an int or a float as the replaced status column is; the
  count is the number of its rows whose status is not null and is positive; and the
  percentage is the float \<^verbatim>\<open>(sum / count) * 100\<close>: the quotient rounded to a float, times 100,
  rounded to a float again. It need not be the exact value of 100 times the sum divided by
  the count (\<open>percentage_not_exact\<close>).
\<close>

theorem aggregate_groups:
  "aggregate df = Inr stats \<Longrightarrow>
     map course stats = sort (remdups (List.map_filter course_cell (rows df))) \<and>
     (\<forall>st\<in>set stats.
        sum_present st =
          (\<Sum>r\<leftarrow>course_rows df (course st). mapped_int (series_replace replace_dict (status_cell df r))) \<and>
        sum_present st =
          int (length (filter (\<lambda>r. status_cell df r = Some ''P'') (course_rows df (course st)))) \<and>
        count_lecture st =
          int (length (filter (\<lambda>r. status_cell df r \<noteq> None) (course_rows df (course st)))) \<and>
        sum_type st = number_type (map snd (selected df)) \<and>
        0 < count_lecture st \<and>
        percentage st = float64 (float64 (of_int (sum_present st) / of_int (count_lecture st)) * 100))"
proof (intro conjI ballI)
  assume a: "aggregate df = Inr stats"
  show "map course stats = sort (remdups (List.map_filter course_cell (rows df)))"
    by (rule aggregate_Inr_rows(1) [OF a])
  fix st assume st: "st \<in> set stats"
  note f = aggregate_Inr_rows(2) [OF a st]
  show "sum_present st =
          int (length (filter (\<lambda>r. status_cell df r = Some ''P'') (course_rows df (course st))))"
    using f by blast
  then show "sum_present st =
          (\<Sum>r\<leftarrow>course_rows df (course st). mapped_int (series_replace replace_dict (status_cell df r)))"
    by (simp add: mapped_int_replace sum_list_indicator)
  show "count_lecture st =
          int (length (filter (\<lambda>r. status_cell df r \<noteq> None) (course_rows df (course st))))"
    using f by blast
  show "sum_type st = number_type (map snd (selected df))"
    by (rule aggregate_sum_type [OF a st])
  show "0 < count_lecture st"
    using stats_bounds_aux [OF a st] by blast
  show "percentage st = float64 (float64 (of_int (sum_present st) / of_int (count_lecture st)) * 100)"
    using f by simp
qed

theorem aggregate_groups_witness:
  "aggregate example_merged = Inr example_stats \<and>
   map course example_stats = sort (remdups (List.map_filter course_cell (rows example_merged))) \<and>
   count_lecture (example_stats ! 1) =
     int (length (filter (\<lambda>r. status_cell example_merged r \<noteq> None)
                    (course_rows example_merged (course (example_stats ! 1)))))"
  using aggregate_groups [OF example_aggregate] example_aggregate
  by (simp add: example_stats_def)

text \<open>
  C6: for a table whose status column holds only \<open>P\<close> and \<open>A\<close>, every row that
  \<open>aggregate\<close> returns has a sum of at most its count and a percentage between 0 and 100.
\<close>

theorem stats_bounds:
  "\<forall>r\<in>set (rows df). status_cell df r = Some ''P'' \<or> status_cell df r = Some ''A'' \<Longrightarrow>
   aggregate df = Inr stats \<Longrightarrow>
   \<forall>st\<in>set stats.
     sum_present st \<le> count_lecture st \<and> 0 \<le> percentage st \<and> percentage st \<le> 100"
  using stats_bounds_aux by blast

theorem stats_bounds_witness:
  "list_all (\<lambda>r. status_cell example_merged r = Some ''P'' \<or> status_cell example_merged r = Some ''A'')
     (rows example_merged) \<and>
   aggregate example_merged = Inr example_stats \<and>
   list_all (\<lambda>st. sum_present st \<le> count_lecture st \<and> 0 \<le> percentage st \<and> percentage st \<le> 100)
     example_stats"
proof -
  have h: "\<forall>r\<in>set (rows example_merged).
      status_cell example_merged r = Some ''P'' \<or> status_cell example_merged r = Some ''A''"
    by (simp add: example_merged_def example_header_def status_cell_def)
  from stats_bounds [OF h example_aggregate] h example_aggregate
  show ?thesis by (simp add: list_all_iff)
qed

text \<open>
  C8 as stated fails: the status \<open>Total\<close> stands in a row whose course cell is null;
  \<^verbatim>\<open>groupby\<close> drops the row, and the aggregation returns statistics and no error.
\<close>

theorem unknown_status_counterexample:
  "aggregate footer_table =
     Inr [\<lparr>course = ''Math'', sum_present = 1, sum_type = PyInt, count_lecture = 1,
          percentage = 100\<rparr>]"
  by (simp add: aggregate_eval footer_table_def)

lemma set_map_filter: "set (List.map_filter f xs) = {y. \<exists>x\<in>set xs. f x = Some y}"
  by (force simp: List.map_filter_def)

text \<open>
  C8 (amended): the source has no check of the status vocabulary. When a row with a course
  has a status string other than \<open>P\<close> and \<open>A\<close> (in a table with a second column whose label
  is not null and differs from the last label), the aggregation raises and returns no
  statistics: a TypeError from the sum or the division, or the ZeroDivisionError of an earlier
  course without any status.
\<close>

theorem unknown_status_raises:
  assumes "2 \<le> length (columns df)"
      and "columns df ! 1 \<noteq> None"
      and "columns df ! 1 \<noteq> columns df ! (length (columns df) - 1)"
      and "r \<in> set (rows df)"
      and "course_cell r = Some c"
      and "status_cell df r = Some s"
      and "s \<noteq> ''P''" and "s \<noteq> ''A''"
  shows "aggregate df = Inl TypeError \<or> aggregate df = Inl ZeroDivisionError"
proof (cases "agg_sum_count (selected df) (group_keys (selected df))")
  case (Inl e)
  with assms(1-3) agg_sum_count_Inl [OF Inl] show ?thesis
    by (simp add: aggregate_unfold)
next
  case (Inr gs)
  have key: "c \<in> set (group_keys (selected df))"
    using assms(4,5) by (auto simp: group_keys_selected set_map_filter)
  with agg_sum_count_Inr [OF Inr] have "c \<in> fst ` set gs"
    by (metis list.set_map)
  then obtain g where g: "g \<in> set gs" and fg: "fst g = c" by auto
  with agg_sum_count_Inr [OF Inr]
  have sum: "group_sum None (group_values c (selected df)) = Inr (fst (snd g))" by blast
  have "r \<in> set (course_rows df c)"
    using assms(4,5) by (simp add: course_rows_def)
  then have "OStr s \<in> set (group_values c (selected df))"
    using assms(6-8) series_replace_OStr [of "status_cell df r" s]
    by (force simp: group_values_selected)
  from group_sum_str_not_int [OF this] sum have "\<forall>p. fst (snd g) \<noteq> OInt p" by auto
  moreover from g have "(fst g, fst (snd g), snd (snd g)) \<in> set gs" by simp
  ultimately have "add_percentage (number_type (map snd (selected df))) gs = Inl TypeError \<or>
      add_percentage (number_type (map snd (selected df))) gs = Inl ZeroDivisionError"
    by (rule add_percentage_bad [rotated])
  with assms(1-3) Inr show ?thesis
    by (simp add: aggregate_unfold)
qed

theorem unknown_status_raises_witness:
  "aggregate late_table = Inl TypeError \<or> aggregate late_table = Inl ZeroDivisionError"
  using unknown_status_raises [of late_table "[Some ''2'', Some ''Math'', Some ''L'']" "''Math''" "''L''"]
  by (simp add: late_table_def course_cell_def status_cell_def)

subsection \<open>Reordering the rows\<close>

lemma forget_text_simps [simp]:
  "forget_text (OStr u) = OStr []" "forget_text (OInt i) = OInt i" "forget_text ONone = ONone"
  by (simp_all add: forget_text_def)

lemma forget_group_simp [simp]: "forget_group (k, s, c) = (k, forget_text s, c)"
  by (simp add: forget_group_def)

lemma group_sum_perm:
  assumes "mset vs' = mset vs"
  shows "map_sum id forget_text (group_sum None vs') = map_sum id forget_text (group_sum None vs)"
proof -
  from assms have set_eq: "set vs' = set vs" by (rule mset_eq_setD)
  show ?thesis
  proof (cases "\<exists>s. OStr s \<in> set vs")
    case False
    then have n: "\<forall>v\<in>set vs. \<forall>s. v \<noteq> OStr s" and n': "\<forall>v\<in>set vs'. \<forall>s. v \<noteq> OStr s"
      using set_eq by auto
    have "sum_list (map mapped_int vs') = sum_list (map mapped_int vs)"
      using assms by (metis mset_map sum_mset_sum_list)
    with group_sum_ints [OF n] group_sum_ints [OF n'] show ?thesis by simp
  next
    case True
    then obtain s where s: "OStr s \<in> set vs" ..
    show ?thesis
    proof (cases "\<exists>i. OInt i \<in> set vs")
      case True
      then obtain i where "OInt i \<in> set vs" ..
      with s set_eq group_sum_mixed [of s vs i] group_sum_mixed [of s vs' i]
      show ?thesis by simp
    next
      case False
      then have n: "\<forall>v\<in>set vs. \<forall>i. v \<noteq> OInt i" and n': "\<forall>v\<in>set vs'. \<forall>i. v \<noteq> OInt i"
        using set_eq by auto
      from group_sum_strs [OF n] s obtain u where "group_sum None vs = Inr (OStr u)" by blast
      moreover from group_sum_strs [OF n'] s set_eq obtain u' where "group_sum None vs' = Inr (OStr u')"
        by blast
      ultimately show ?thesis by simp
    qed
  qed
qed

lemma group_count_perm: "mset vs' = mset vs \<Longrightarrow> group_count vs' = group_count vs"
  unfolding group_count_def by (metis mset_filter size_mset)

lemma agg_sum_count_perm:
  "\<forall>k\<in>set ks. mset (group_values k recs') = mset (group_values k recs) \<Longrightarrow>
     map_sum id (map forget_group) (agg_sum_count recs' ks)
       = map_sum id (map forget_group) (agg_sum_count recs ks)"
proof (induction ks)
  case Nil
  then show ?case by simp
next
  case (Cons k ks)
  then have m: "mset (group_values k recs') = mset (group_values k recs)" by simp
  have IH: "map_sum id (map forget_group) (agg_sum_count recs' ks)
       = map_sum id (map forget_group) (agg_sum_count recs ks)"
    by (rule Cons.IH) (use Cons.prems in simp)
  from group_sum_perm [OF m] group_count_perm [OF m] IH
  show ?case
    by (auto split: sum.splits)
qed

lemma add_percentage_forget: "add_percentage t (map forget_group gs) = add_percentage t gs"
proof (induction t gs rule: add_percentage.induct)
  case (1 t)
  then show ?case by simp
next
  case (2 t k s c gs)
  then show ?case by (cases s) auto
qed

lemma percentage_after_forget:
  "(case map_sum id (map forget_group) x of Inl e \<Rightarrow> Inl e | Inr g \<Rightarrow> add_percentage t g)
     = (case x of Inl e \<Rightarrow> Inl e | Inr g \<Rightarrow> add_percentage t g)"
  by (cases x) (simp_all add: add_percentage_forget)

lemma mset_from_groups:
  assumes "\<And>c. mset (filter (\<lambda>r. f r = c) xs') = mset (filter (\<lambda>r. f r = c) xs)"
  shows "mset xs' = mset xs"
proof (rule multiset_eqI)
  fix r
  have "count (mset xs') r = count (mset (filter (\<lambda>x. f x = f r) xs')) r" by simp
  also have "\<dots> = count (mset (filter (\<lambda>x. f x = f r) xs)) r" by (simp only: assms)
  also have "\<dots> = count (mset xs) r" by simp
  finally show "count (mset xs') r = count (mset xs) r" .
qed

lemma aggregate_perm_aux:
  assumes cols: "columns df' = columns df"
      and perm: "mset (rows df') = mset (rows df)"
  shows "aggregate df' = aggregate df"
proof -
  let ?f = "\<lambda>r. (course_cell r, series_replace replace_dict (status_cell df r))"
  have sel': "selected df' = map ?f (rows df')"
    by (simp add: selected_def status_cell_def cols)
  have sel: "selected df = map ?f (rows df)"
    by (simp add: selected_def)
  have m: "mset (selected df') = mset (selected df)"
    unfolding sel sel' using perm by (metis mset_map)
  have keys: "group_keys (selected df') = group_keys (selected df)"
  proof -
    have "set (List.map_filter fst (selected df')) = set (List.map_filter fst (selected df))"
      using mset_eq_setD [OF m] by (simp add: set_map_filter)
    then show ?thesis
      unfolding group_keys_def by (metis sorted_list_of_set_sort_remdups)
  qed
  have vals: "\<forall>k\<in>set (group_keys (selected df)).
      mset (group_values k (selected df')) = mset (group_values k (selected df))"
    unfolding group_values_def using m by (metis mset_filter mset_map)
  have ty: "number_type (map snd (selected df')) = number_type (map snd (selected df))"
    using mset_eq_setD [OF m] by (simp add: number_type_def list_ex_iff list_all_iff)
  have "(case agg_sum_count (selected df') (group_keys (selected df')) of
           Inl e \<Rightarrow> Inl e | Inr g \<Rightarrow> add_percentage (number_type (map snd (selected df'))) g)
        = (case agg_sum_count (selected df) (group_keys (selected df)) of
           Inl e \<Rightarrow> Inl e | Inr g \<Rightarrow> add_percentage (number_type (map snd (selected df))) g)"
    using agg_sum_count_perm [OF vals] percentage_after_forget keys ty by metis
  then show ?thesis
    by (simp add: aggregate_unfold cols)
qed

text \<open>
  C7: a table with the same columns in which the rows of every course are a permutation of
  that course's rows in the original table (the rows without a course included) is
  aggregated to the same result: the same rows with the same sums, counts and percentages,
  or the same error.
\<close>

theorem aggregate_row_order:
  assumes "columns df' = columns df"
      and "\<forall>c. mset (filter (\<lambda>r. course_cell r = c) (rows df'))
               = mset (filter (\<lambda>r. course_cell r = c) (rows df))"
  shows "aggregate df' = aggregate df"
  using assms mset_from_groups [of course_cell "rows df'" "rows df"] aggregate_perm_aux
  by blast

theorem aggregate_row_order_witness:
  "aggregate example_shuffled = Inr example_stats"
proof -
  have "\<forall>c. mset (filter (\<lambda>r. course_cell r = c) (rows example_shuffled))
           = mset (filter (\<lambda>r. course_cell r = c) (rows example_merged))"
    by (simp add: example_shuffled_def example_merged_def course_cell_def)
  with aggregate_row_order [of example_shuffled example_merged] example_aggregate
  show ?thesis by (simp add: example_shuffled_def example_merged_def)
qed

section \<open>The report text\<close>

subsection \<open>The lines of the report\<close>

lemma split_nl_line:
  "CHR ''\<newline>'' \<notin> set l \<Longrightarrow> split_nl (l @ CHR ''\<newline>'' # rest) = l # split_nl rest"
  by (induction l) auto

lemma digit_no_newline: "d < 10 \<Longrightarrow> digit d \<noteq> CHR ''\<newline>''"
proof -
  assume "d < 10"
  then have "digit d \<in> set ''0123456789''"
    unfolding digit_def by (intro nth_mem) simp
  then show ?thesis by auto
qed

lemma str_nat_no_newline: "CHR ''\<newline>'' \<notin> set (str_nat n)"
proof (induction n rule: str_nat.induct)
  case (1 n)
  show ?case
  proof (cases "n < 10")
    case True
    then show ?thesis using digit_no_newline [of n] by (subst str_nat.simps) simp
  next
    case False
    have "n mod 10 < 10" by simp
    with False 1 digit_no_newline [of "n mod 10"] show ?thesis
      by (subst str_nat.simps) auto
  qed
qed

lemma str_int_no_newline: "CHR ''\<newline>'' \<notin> set (str_int i)"
  by (simp add: str_int_def str_nat_no_newline)

lemma str_number_no_newline: "CHR ''\<newline>'' \<notin> set (str_number t i)"
  by (cases t) (simp_all add: str_number_def str_int_no_newline)

lemma format_2f_no_newline: "CHR ''\<newline>'' \<notin> set (format_2f x)"
proof -
  define n where "n = nat (round_half_even (\<bar>x\<bar> * 100))"
  have a: "n mod 100 div 10 < 10" by (simp add: div_less_iff_less_mult)
  have b: "n mod 10 < 10" by simp
  have "format_2f x = (if x < 0 then ''-'' else []) @ str_nat (n div 100) @ ''.'' @
      [digit (n mod 100 div 10), digit (n mod 10)]"
    by (simp add: format_2f_def Let_def n_def)
  then show ?thesis
    using digit_no_newline [OF a] digit_no_newline [OF b]
    by (simp add: str_nat_no_newline)
qed

lemma block_lines_no_newline:
  "CHR ''\<newline>'' \<notin> set (course row) \<Longrightarrow> \<forall>l\<in>set (block_lines row). CHR ''\<newline>'' \<notin> set l"
  by (simp add: block_lines_def str_int_no_newline str_number_no_newline format_2f_no_newline
      present_mark_def absent_mark_def total_mark_def percentage_mark_def)

lemma split_nl_lines:
  "\<forall>l\<in>set ls. CHR ''\<newline>'' \<notin> set l \<Longrightarrow>
     split_nl (concat (map (\<lambda>l. l @ ''\<newline>'') ls) @ rest) = ls @ split_nl rest"
  by (induction ls) (simp_all add: split_nl_line)

lemma split_nl_block:
  "CHR ''\<newline>'' \<notin> set (course row) \<Longrightarrow> split_nl (block row @ rest) = block_lines row @ split_nl rest"
  unfolding block_def by (rule split_nl_lines) (rule block_lines_no_newline)

lemma report_lines_aux:
  "\<forall>row\<in>set g. CHR ''\<newline>'' \<notin> set (course row) \<Longrightarrow> g \<noteq> [] \<Longrightarrow>
     split_nl (report_text g) = concat (map (\<lambda>row. block_lines row @ [[]]) g)"
proof (induction g)
  case Nil
  then show ?case by simp
next
  case (Cons row g)
  show ?case
  proof (cases g)
    case Nil
    with Cons.prems split_nl_block [of row "[]"] show ?thesis
      by (simp add: report_text_def)
  next
    case (Cons row' g')
    with Cons.IH Cons.prems have IH: "split_nl (report_text g) = concat (map (\<lambda>row. block_lines row @ [[]]) g)"
      by simp
    have "report_text (row # g) = block row @ CHR ''\<newline>'' # report_text g"
      using Cons by (simp add: report_text_def)
    with Cons.prems IH split_nl_block [of row "CHR ''\<newline>'' # report_text g"]
    show ?thesis by simp
  qed
qed

lemma str_int_digits:
  "str_int 0 = ''0''" "str_int 1 = ''1''" "str_int 2 = ''2''" "str_int 3 = ''3''" "str_int 4 = ''4''"
  by (simp_all add: str_int_def str_nat.simps digit_def)

lemma format_2f_rounded:
  "0 \<le> x \<Longrightarrow> round_half_even (x * 100) = int n \<Longrightarrow>
     format_2f x = str_nat (n div 100) @ ''.'' @ [digit (n mod 100 div 10), digit (n mod 10)]"
  by (simp add: format_2f_def Let_def)

lemma round_percentage_2_of_3:
  "round_half_even (2345624805922133 / 35184372088832 * 100) = 6667"
  by code_simp

lemma format_2f_values:
  "format_2f 0 = ''0.00''"
  "format_2f 75 = ''75.00''"
  "format_2f 100 = ''100.00''"
  "format_2f (2345624805922133 / 35184372088832) = ''66.67''"
  using format_2f_rounded [of "2345624805922133 / 35184372088832" 6667] round_percentage_2_of_3
  by (simp_all add: format_2f_def round_half_even_def digit_def Let_def str_nat.simps)

lemma ppap_aggregate: "aggregate ppap_table = Inr [ppap_stats]"
  by (simp add: aggregate_eval ppap_table_def ppap_stats_def)

text \<open>
  C5 as stated fails on the report of the example: the lines after the first start with the
  marks of the source's string literals, and every block ends with a newline before the
  newline that joins the blocks, so an empty line stands between the two blocks.
\<close>

theorem report_blank_line_counterexample:
  "report_text example_stats =
     ''Course: Art\<newline>'' @
     present_mark @ '' Present: 0\<newline>'' @
     absent_mark @ '' Absent: 1\<newline>'' @
     total_mark @ '' Total: 1\<newline>'' @
     percentage_mark @ '' Percentage: 0.00%\<newline>'' @
     ''\<newline>'' @
     ''Course: Math\<newline>'' @
     present_mark @ '' Present: 2\<newline>'' @
     absent_mark @ '' Absent: 1\<newline>'' @
     total_mark @ '' Total: 3\<newline>'' @
     percentage_mark @ '' Percentage: 66.67%\<newline>''"
  by (simp add: report_text_def block_def block_lines_def example_stats_def str_number_def
      str_int_digits format_2f_values)

text \<open>
  A sum of a status column with a null in it is a float and is printed as one.
\<close>

lemma float_sum_lines:
  "aggregate null_status_table = Inr [st] \<Longrightarrow>
     block_lines st =
       [''Course: Math'',
        present_mark @ '' Present: 1.0'',
        absent_mark @ '' Absent: 0.0'',
        total_mark @ '' Total: 1'',
        percentage_mark @ '' Percentage: 100.00%'']"
  by (auto simp add: aggregate_eval null_status_table_def block_lines_def str_number_def
      str_int_digits format_2f_values)

text \<open>
  C5 (amended): when no course name holds a newline, the lines of the report (the text split
  at its newlines) are, for every row in order, the five lines of its block and an empty
  line after them: the course; the sum, the count minus the sum, and the count, each after
  its mark, the sum and the difference written as ints or, when the sum is a float, with
  \<^verbatim>\<open>.0\<close>; and the percentage with two decimals and a percent sign. The report of no rows is
  the empty text. A percentage of 75 is written \<^verbatim>\<open>75.00%\<close>.
\<close>

theorem report_lines:
  assumes "\<forall>row\<in>set g. CHR ''\<newline>'' \<notin> set (course row)"
  shows "split_nl (report_text g) =
           (if g = [] then [[]]
            else concat (map (\<lambda>row.
              [''Course: '' @ course row,
               present_mark @ '' Present: '' @ str_number (sum_type row) (sum_present row),
               absent_mark @ '' Absent: '' @
                 str_number (sum_type row) (count_lecture row - sum_present row),
               total_mark @ '' Total: '' @ str_int (count_lecture row),
               percentage_mark @ '' Percentage: '' @ format_2f (percentage row) @ ''%'',
               []]) g)) \<and>
         (\<forall>row\<in>set g. percentage row = 75 \<longrightarrow>
            last (block_lines row) = percentage_mark @ '' Percentage: 75.00%'')"
proof (cases "g = []")
  case True
  then show ?thesis by (simp add: report_text_def)
next
  case False
  with report_lines_aux [OF assms] show ?thesis
    by (simp add: block_lines_def format_2f_values)
qed

theorem report_lines_witness:
  "aggregate ppap_table = Inr [ppap_stats] \<and>
   split_nl (report_text [ppap_stats]) =
     [''Course: CourseA'',
      present_mark @ '' Present: 3'',
      absent_mark @ '' Absent: 1'',
      total_mark @ '' Total: 4'',
      percentage_mark @ '' Percentage: 75.00%'',
      []] \<and>
   last (block_lines ppap_stats) = percentage_mark @ '' Percentage: 75.00%''"
  using report_lines [of "[ppap_stats]"] ppap_aggregate
  by (simp add: ppap_stats_def str_number_def str_int_digits format_2f_values)

section \<open>Merging tables with the same header\<close>

























lemma sum_list_rows: "(\<Sum>t\<leftarrow>ts. length (f t)) = length (concat (map f ts))"
  by (induction ts) auto



end
